theory Spec2Isabelle
  imports Main "HOL-Library.Word"
begin

unbundle bit_operations_syntax

section \<open>Values, identifiers and contacts\<close>

text \<open>
  An identifier (node id, key) is a 160-bit unsigned value; the program passes it around as
  its 20-byte big-endian string, the model keeps the value itself.  A payload value is one
  of the kinds of Python object the transport can deliver: \<open>None\<close>, a \<open>bytes\<close>
  string, a \<open>str\<close> or an \<open>int\<close>.
\<close>

type_synonym ident = "160 word"
type_synonym bytes = "8 word list"
type_synonym address = "string \<times> nat"

datatype pyval = PyNone | PyBytes bytes | PyStr string | PyInt int

datatype error =
  TypeError | ValueError | OverflowError | FileNotFoundError | UnicodeEncodeError
  | UnicodeDecodeError

text \<open>
  Modelled from the spec: the class \<open>Node\<close> of \<open>kademlia/node.py\<close> (a contact: an
  identifier and an optional host and port), its constructor, its XOR distance and its
  conversion to a tuple.
\<close>

record node =
  id' :: ident
  ip :: "string option"
  port :: "nat option"

definition Node :: "ident \<Rightarrow> string option \<Rightarrow> nat option \<Rightarrow> node" where
  "Node node_id host prt = \<lparr>id' = node_id, ip = host, port = prt\<rparr>"

definition distance_to :: "node \<Rightarrow> node \<Rightarrow> ident" where
  "distance_to a b = id' a XOR id' b"

definition tuple :: "node \<Rightarrow> ident \<times> string option \<times> nat option" where
  "tuple n = (id' n, ip n, port n)"

section \<open>The collaborators of the protocol\<close>

text \<open>
  The routing table (\<open>kademlia/routing.py\<close>), the digest (\<open>kademlia/utils.py\<close>), the
  directory of the module and the text codec of the platform are not part of
  \<open>protocol.py\<close>; the protocol is modelled over any implementation of them.  A routing
  table is a state of type \<open>'r\<close> with the five operations the protocol calls;
  \<open>find_neighbors\<close> takes the optional \<open>exclude\<close> argument as an option, and
  \<open>lonely_buckets\<close> yields the \<open>range\<close> pair of every lonely bucket.
  \<open>text_encode\<close> is what a text-mode write puts on disk for a \<open>str\<close>,
  \<open>text_decode\<close> what a text-mode read makes of the bytes of a file; either can
  fail.
\<close>

record 'r env =
  is_new_node :: "'r \<Rightarrow> node \<Rightarrow> bool"
  add_contact :: "'r \<Rightarrow> node \<Rightarrow> 'r"
  remove_contact :: "'r \<Rightarrow> node \<Rightarrow> 'r"
  find_neighbors :: "'r \<Rightarrow> node \<Rightarrow> node option \<Rightarrow> node list"
  lonely_buckets :: "'r \<Rightarrow> (int \<times> int) list"
  digest :: "ident \<Rightarrow> ident"
  module_dir :: string
  text_encode :: "string \<Rightarrow> error + bytes"
  text_decode :: "bytes \<Rightarrow> error + string"

text \<open>
  Modelled from the spec: the key/value collaborator (\<open>kademlia/storage.py\<close>), a mapping
  with get, set and iteration over its (key, value) pairs.
\<close>

type_synonym storage = "(ident \<times> pyval) list"

definition storage_get :: "storage \<Rightarrow> ident \<Rightarrow> pyval \<Rightarrow> pyval" where
  "storage_get st key dflt = (case map_of st key of None \<Rightarrow> dflt | Some v \<Rightarrow> v)"

definition storage_set :: "storage \<Rightarrow> ident \<Rightarrow> pyval \<Rightarrow> storage" where
  "storage_set st key v = filter (\<lambda>kv. fst kv \<noteq> key) st @ [(key, v)]"

section \<open>The state of a \<open>KademliaProtocol\<close>\<close>

text \<open>
  \<open>scheduled\<close> lists the \<open>call_store\<close> coroutines handed to
  \<open>asyncio.ensure_future\<close>, oldest first; \<open>files\<close> is the file system, a map from
  path to content.
\<close>

datatype call = CallStore node ident pyval

record 'r protocol =
  router :: 'r
  storage :: storage
  source_node :: node
  files :: "string \<rightharpoonup> bytes"
  scheduled :: "call list"

section \<open>Paths\<close>

definition path_join :: "string \<Rightarrow> string \<Rightarrow> string" where
  "path_join a b =
     (if take 1 b = ''/'' then b
      else if a = [] \<or> last a = CHR ''/'' then a @ b
      else a @ ''/'' @ b)"

definition hexdigit :: "nat \<Rightarrow> char" where
  "hexdigit n = ''0123456789abcdef'' ! n"

definition hex :: "ident \<Rightarrow> string" where
  "hex w = map (\<lambda>i. hexdigit (unat (take_bit 4 (drop_bit (4 * i) w)))) (rev [0..<40])"

definition data_path :: "'r env \<Rightarrow> string" where
  "data_path E = path_join (module_dir E) ''store''"

definition files_path :: "'r env \<Rightarrow> string" where
  "files_path E = path_join (data_path E) ''files''"

definition kad_file :: "'r env \<Rightarrow> ident \<Rightarrow> string" where
  "kad_file E key = path_join (files_path E) (hex key @ ''.kad'')"

definition txt_file :: "'r env \<Rightarrow> ident \<Rightarrow> string" where
  "txt_file E key = path_join (data_path E) (hex key @ ''.txt'')"

section \<open>Files\<close>

text \<open>
  Opening for writing creates the file or truncates it.  \<open>write\<close> on a binary file
  takes \<open>bytes\<close> only, on a text file \<open>str\<close> only, and raises \<open>TypeError\<close>
  otherwise; on a text file it encodes the text with the codec of the platform and raises
  \<open>UnicodeEncodeError\<close> where the codec cannot encode it.  The content is on disk
  once the \<open>with\<close> block is left.  \<open>os.remove\<close> raises \<open>FileNotFoundError\<close>
  where there is no file.
\<close>

definition open_w :: "string \<Rightarrow> (string \<rightharpoonup> bytes) \<Rightarrow> (string \<rightharpoonup> bytes)" where
  "open_w path fs = fs(path \<mapsto> [])"

definition binary_data :: "pyval \<Rightarrow> error + bytes" where
  "binary_data v = (case v of PyBytes b \<Rightarrow> Inr b | _ \<Rightarrow> Inl TypeError)"

definition text_data :: "'r env \<Rightarrow> pyval \<Rightarrow> error + bytes" where
  "text_data E v = (case v of PyStr t \<Rightarrow> text_encode E t | _ \<Rightarrow> Inl TypeError)"

definition os_remove :: "string \<Rightarrow> (string \<rightharpoonup> bytes) \<Rightarrow> error + (string \<rightharpoonup> bytes)" where
  "os_remove path fs = (if fs path = None then Inl FileNotFoundError else Inr (fs(path := None)))"

section \<open>Admission: \<open>welcome_if_new\<close> and \<open>handle_call_response\<close>\<close>

definition replicates :: "'r env \<Rightarrow> 'r protocol \<Rightarrow> node \<Rightarrow> ident \<Rightarrow> bool" where
  "replicates E s nd key =
     (let keynode = Node (digest E key) None None;
          neighbors = find_neighbors E (router s) keynode None
      in if neighbors \<noteq> [] then
           (let lst = distance_to (last neighbors) keynode;
                new_node_close = distance_to nd keynode < lst;
                first = distance_to (hd neighbors) keynode;
                this_closest = distance_to (source_node s) keynode < first
            in new_node_close \<and> this_closest)
         else True)"

fun welcome_loop :: "'r env \<Rightarrow> node \<Rightarrow> storage \<Rightarrow> 'r protocol \<Rightarrow> 'r protocol" where
  "welcome_loop E nd [] s = s"
| "welcome_loop E nd ((key, v) # rest) s =
     welcome_loop E nd rest
       (if replicates E s nd key
        then s\<lparr>scheduled := scheduled s @ [CallStore nd key v]\<rparr>
        else s)"

definition welcome_if_new :: "'r env \<Rightarrow> 'r protocol \<Rightarrow> node \<Rightarrow> 'r protocol" where
  "welcome_if_new E s nd =
     (if \<not> is_new_node E (router s) nd then s
      else (let s' = welcome_loop E nd (storage s) s
            in s'\<lparr>router := add_contact E (router s') nd\<rparr>))"

definition handle_call_response ::
    "'r env \<Rightarrow> 'r protocol \<Rightarrow> bool \<times> 'p \<Rightarrow> node \<Rightarrow> (bool \<times> 'p) \<times> 'r protocol" where
  "handle_call_response E s result nd =
     (if \<not> fst result then (result, s\<lparr>router := remove_contact E (router s) nd\<rparr>)
      else (result, welcome_if_new E s nd))"

section \<open>The inbound handlers\<close>

text \<open>
  A handler takes the state of the protocol and returns its result with the new state; a
  handler that can raise returns an \<open>error\<close> in place of the result, with the state as
  the exception leaves it.  The sender is the pair of host and port.  The logging calls
  have no effect on the state; their arguments (\<open>key.hex()\<close>, and
  \<open>int(nodeid.hex(), 16)\<close> in \<open>rpc_find_node\<close>) are defined for every 20-byte
  identifier.  A reply is either the dictionary \<open>{'value': v}\<close> or a list of contact
  tuples.
\<close>

datatype reply = Value pyval | Neighbors "(ident \<times> string option \<times> nat option) list"

definition source_of :: "address \<Rightarrow> ident \<Rightarrow> node" where
  "source_of sender nodeid = Node nodeid (Some (fst sender)) (Some (snd sender))"

text \<open>\<open>rpc_stun\<close> is a static method: it has no access to the protocol, whose state passes
  through as it is.\<close>

definition rpc_stun :: "'r protocol \<Rightarrow> address \<Rightarrow> address \<times> 'r protocol" where
  "rpc_stun s sender = (sender, s)"

definition rpc_ping ::
    "'r env \<Rightarrow> 'r protocol \<Rightarrow> address \<Rightarrow> ident \<Rightarrow> ident \<times> 'r protocol" where
  "rpc_ping E s sender nodeid =
     (let source = source_of sender nodeid;
          s1 = welcome_if_new E s source
      in (id' (source_node s1), s1))"

definition rpc_store ::
    "'r env \<Rightarrow> 'r protocol \<Rightarrow> address \<Rightarrow> ident \<Rightarrow> ident \<Rightarrow> pyval
       \<Rightarrow> bool \<times> 'r protocol" where
  "rpc_store E s sender nodeid key v =
     (let source = source_of sender nodeid;
          s1 = welcome_if_new E s source
      in (True, s1\<lparr>storage := storage_set (storage s1) key v\<rparr>))"

definition rpc_file_store ::
    "'r env \<Rightarrow> 'r protocol \<Rightarrow> address \<Rightarrow> ident \<Rightarrow> ident \<Rightarrow> pyval
       \<Rightarrow> (error + bool) \<times> 'r protocol" where
  "rpc_file_store E s sender node_id key v =
     (let source = source_of sender node_id;
          s1 = welcome_if_new E s source;
          fs1 = open_w (kad_file E key) (files s1)
      in case binary_data v of
           Inr b \<Rightarrow> (Inr True, s1\<lparr>files := fs1(kad_file E key \<mapsto> b)\<rparr>)
         | Inl _ \<Rightarrow>
             (case os_remove (kad_file E key) fs1 of
                Inl e \<Rightarrow> (Inl e, s1\<lparr>files := fs1\<rparr>)
              | Inr fs2 \<Rightarrow>
                  (let fs3 = open_w (txt_file E key) fs2
                   in case text_data E v of
                        Inl e \<Rightarrow> (Inl e, s1\<lparr>files := fs3\<rparr>)
                      | Inr b \<Rightarrow> (Inr True, s1\<lparr>files := fs3(txt_file E key \<mapsto> b)\<rparr>))))"

definition rpc_find_file ::
    "'r env \<Rightarrow> 'r protocol \<Rightarrow> address \<Rightarrow> ident \<Rightarrow> ident
       \<Rightarrow> (error + reply) \<times> 'r protocol" where
  "rpc_find_file E s sender node_id key =
     (let source = source_of sender node_id;
          s1 = welcome_if_new E s source
      in case files s1 (kad_file E key) of
           Some b \<Rightarrow> (Inr (Value (PyBytes b)), s1)
         | None \<Rightarrow>
             (case files s1 (txt_file E key) of
                Some b \<Rightarrow>
                  (case text_decode E b of
                     Inl e \<Rightarrow> (Inl e, s1)
                   | Inr t \<Rightarrow> (Inr (Value (PyStr t)), s1))
              | None \<Rightarrow> (Inr (Value PyNone), s1)))"

definition rpc_find_node ::
    "'r env \<Rightarrow> 'r protocol \<Rightarrow> address \<Rightarrow> ident \<Rightarrow> ident
       \<Rightarrow> (ident \<times> string option \<times> nat option) list \<times> 'r protocol" where
  "rpc_find_node E s sender nodeid key =
     (let source = source_of sender nodeid;
          s1 = welcome_if_new E s source;
          nd = Node key None None;
          neighbors = find_neighbors E (router s1) nd (Some source)
      in (map tuple neighbors, s1))"

definition rpc_find_value ::
    "'r env \<Rightarrow> 'r protocol \<Rightarrow> address \<Rightarrow> ident \<Rightarrow> ident \<Rightarrow> reply \<times> 'r protocol" where
  "rpc_find_value E s sender nodeid key =
     (let source = source_of sender nodeid;
          s1 = welcome_if_new E s source;
          v = storage_get (storage s1) key PyNone
      in if v = PyNone
         then (case rpc_find_node E s1 sender nodeid key of (ns, s2) \<Rightarrow> (Neighbors ns, s2))
         else (Value v, s1))"

section \<open>Refresh targets: \<open>get_refresh_ids\<close>\<close>







section \<open>The rules of the specification\<close>

text \<open>
  The replication rule, in the words of the specification: replicate the key to the new
  contact iff no neighbour is known for the key, or the new contact is strictly closer to the
  key than the farthest of the neighbours found and the local node is strictly closer to it
  than the nearest of them.  A key is an identifier, and the distances are XOR distances to
  it.  \<open>ascending\<close> is the contract of \<open>find_neighbors\<close>: its answer is in ascending
  order of distance to the target.
\<close>

definition farthest :: "node \<Rightarrow> node list \<Rightarrow> ident" where
  "farthest keynode ns = Max (set (map (\<lambda>n. distance_to n keynode) ns))"

definition nearest :: "node \<Rightarrow> node list \<Rightarrow> ident" where
  "nearest keynode ns = Min (set (map (\<lambda>n. distance_to n keynode) ns))"

definition replicate_rule :: "'r env \<Rightarrow> 'r \<Rightarrow> node \<Rightarrow> node \<Rightarrow> ident \<Rightarrow> bool" where
  "replicate_rule E r self c key =
     (let keynode = Node key None None;
          ns = find_neighbors E r keynode None
      in ns = [] \<or>
         (distance_to c keynode < farthest keynode ns \<and>
          distance_to self keynode < nearest keynode ns))"

definition ascending :: "'r env \<Rightarrow> 'r \<Rightarrow> ident \<Rightarrow> bool" where
  "ascending E r target =
     sorted (map (\<lambda>n. distance_to n (Node target None None))
               (find_neighbors E r (Node target None None) None))"

text \<open>
  The policy of \<open>add_contact\<close> in the specification: a contact that the table does not
  take is dropped, and no existing contact is evicted to admit it.  What the handlers need
  of it: when the table still holds a contact to be new, passing the contact to
  \<open>add_contact\<close> leaves the neighbours of the target, the contact excluded, as they
  were.
\<close>

definition declines_quietly :: "'r env \<Rightarrow> 'r \<Rightarrow> node \<Rightarrow> ident \<Rightarrow> bool" where
  "declines_quietly E r c target =
     (is_new_node E r c \<longrightarrow>
        find_neighbors E (add_contact E r c) (Node target None None) (Some c) =
        find_neighbors E r (Node target None None) (Some c))"

section \<open>SHA-1 of an identifier\<close>

text \<open>
  \<open>kademlia.utils.digest\<close> is \<open>hashlib.sha1\<close>.  A key is 20 bytes long, so that the
  padded message is one block of sixteen 32-bit words: the five words of the key, the
  word \<open>0x80000000\<close>, nine zero words and the bit length 160.
\<close>

definition rotl :: "nat \<Rightarrow> 32 word \<Rightarrow> 32 word" where
  "rotl n w = push_bit n w OR drop_bit (32 - n) w"

definition extend :: "nat \<Rightarrow> 32 word list \<Rightarrow> 32 word list" where
  "extend t ws =
     ws @ [rotl 1 (ws ! (t - 3) XOR ws ! (t - 8) XOR ws ! (t - 14) XOR ws ! (t - 16))]"

definition ch :: "32 word \<Rightarrow> 32 word \<Rightarrow> 32 word \<Rightarrow> 32 word" where
  "ch b c d = (b AND c) OR (NOT b AND d)"

definition parity :: "32 word \<Rightarrow> 32 word \<Rightarrow> 32 word \<Rightarrow> 32 word" where
  "parity b c d = b XOR c XOR d"

definition maj :: "32 word \<Rightarrow> 32 word \<Rightarrow> 32 word \<Rightarrow> 32 word" where
  "maj b c d = (b AND c) OR (b AND d) OR (c AND d)"

type_synonym sha1_state = "32 word \<times> 32 word \<times> 32 word \<times> 32 word \<times> 32 word"

fun rounds ::
    "(32 word \<Rightarrow> 32 word \<Rightarrow> 32 word \<Rightarrow> 32 word) \<Rightarrow> 32 word \<Rightarrow> 32 word list
       \<Rightarrow> sha1_state \<Rightarrow> sha1_state" where
  "rounds f k [] st = st"
| "rounds f k (w # ws) (a, b, c, d, e) =
     rounds f k ws (rotl 5 a + f b c d + e + k + w, a, rotl 30 b, c, d)"

definition sha1_block :: "32 word list \<Rightarrow> sha1_state" where
  "sha1_block block =
     (let ws = fold extend [16..<80] block;
          st1 = rounds ch 0x5A827999 (take 20 ws)
                  (0x67452301, 0xEFCDAB89, 0x98BADCFE, 0x10325476, 0xC3D2E1F0);
          st2 = rounds parity 0x6ED9EBA1 (take 20 (drop 20 ws)) st1;
          st3 = rounds maj 0x8F1BBCDC (take 20 (drop 40 ws)) st2
      in rounds parity 0xCA62C1D6 (drop 60 ws) st3)"

definition sha1 :: "160 word \<Rightarrow> 160 word" where
  "sha1 key =
     (case sha1_block (map (\<lambda>i. ucast (drop_bit (32 * i) key)) [4, 3, 2, 1, 0]
                         @ [0x80000000, 0, 0, 0, 0, 0, 0, 0, 0, 0, 160]) of
        (a, b, c, d, e) \<Rightarrow>
          push_bit 128 (ucast (0x67452301 + a))
          OR push_bit 96 (ucast (0xEFCDAB89 + b))
          OR push_bit 64 (ucast (0x98BADCFE + c))
          OR push_bit 32 (ucast (0x10325476 + d))
          OR ucast (0xC3D2E1F0 + e))"

section \<open>A concrete instance\<close>

text \<open>
  To run the model on concrete inputs: a routing table of one bucket of capacity \<open>k\<close>, kept
  as the list of its contacts, least recently seen first, which drops a new contact when it
  is full; lonely buckets with the given ranges; SHA-1 as digest; and the text files of a
  POSIX platform whose encoding is ASCII: a write keeps every character as it is and raises
  \<open>UnicodeEncodeError\<close> on a character beyond ASCII, a read turns every \<open>CR LF\<close> and
  every lone \<open>CR\<close> into \<open>LF\<close> (universal newlines).
\<close>

definition ascii_encode :: "string \<Rightarrow> error + bytes" where
  "ascii_encode t =
     (if list_all (\<lambda>c. (of_char c :: nat) < 128) t then Inr (map (\<lambda>c. of_nat (of_char c)) t)
      else Inl UnicodeEncodeError)"

fun universal_newlines :: "string \<Rightarrow> string" where
  "universal_newlines (c # d # cs) =
     (if c = CHR 0x0D \<and> d = CHR 0x0A then CHR 0x0A # universal_newlines cs
      else if c = CHR 0x0D then CHR 0x0A # universal_newlines (d # cs)
      else c # universal_newlines (d # cs))"
| "universal_newlines [c] = (if c = CHR 0x0D then [CHR 0x0A] else [c])"
| "universal_newlines [] = []"

definition ascii_decode :: "bytes \<Rightarrow> error + string" where
  "ascii_decode bs =
     (if list_all (\<lambda>b. b < 128) bs then Inr (universal_newlines (map (\<lambda>b. char_of (unat b)) bs))
      else Inl UnicodeDecodeError)"

definition one_bucket :: "nat \<Rightarrow> (int \<times> int) list \<Rightarrow> node list env" where
  "one_bucket k ranges =
     \<lparr>is_new_node = (\<lambda>r n. id' n \<notin> set (map id' r)),
      add_contact = (\<lambda>r n.
        if id' n \<in> set (map id' r) then filter (\<lambda>m. id' m \<noteq> id' n) r @ [n]
        else if length r < k then r @ [n] else r),
      remove_contact = (\<lambda>r n. filter (\<lambda>m. id' m \<noteq> id' n) r),
      find_neighbors = (\<lambda>r t ex.
        take k (sort_key (\<lambda>m. distance_to m t) (filter (\<lambda>m. Some m \<noteq> ex) r))),
      lonely_buckets = (\<lambda>r. ranges),
      digest = sha1,
      module_dir = ''/srv/kademlia'',
      text_encode = ascii_encode,
      text_decode = ascii_decode\<rparr>"

definition contact :: "ident \<Rightarrow> node" where
  "contact i = Node i (Some ''10.0.0.1'') (Some 8468)"

definition start :: "node list \<Rightarrow> storage \<Rightarrow> node list protocol" where
  "start r st =
     \<lparr>router = r, storage = st, source_node = Node 0 None None,
      files = Map.empty, scheduled = []\<rparr>"

definition table3 :: "node list env" where
  "table3 = one_bucket 3 [(0, 7), (8, 15)]"

definition holder :: "node list protocol" where
  "holder = start [contact 9, contact 6] [(1, PyBytes [1]), (12, PyNone)]"

text \<open>The same node with a full bucket.\<close>

definition crowded :: "node list protocol" where
  "crowded = start [contact 9, contact 6, contact 10] [(1, PyBytes [1]), (12, PyNone)]"

section \<open>The admission loop\<close>

lemma last_sorted_Max:
  fixes ys :: "('a::linorder) list"
  assumes "sorted ys" "ys \<noteq> []"
  shows "last ys = Max (set ys)"
proof -
  have split: "ys = butlast ys @ [last ys]"
    using assms(2) by simp
  have "sorted (butlast ys @ [last ys])"
    using assms(1) split by simp
  then have below: "\<forall>x\<in>set (butlast ys). x \<le> last ys"
    by (simp add: sorted_append)
  have "set ys = insert (last ys) (set (butlast ys))"
    using split by (metis Un_insert_right append_Nil2 list.simps(15) set_append)
  then have "\<And>y. y \<in> set ys \<Longrightarrow> y \<le> last ys"
    using below by auto
  moreover have "last ys \<in> set ys"
    using assms(2) by simp
  ultimately have "Max (set ys) = last ys"
    by (intro Max_eqI) auto
  then show ?thesis by simp
qed

lemma hd_sorted_Min:
  fixes ys :: "('a::linorder) list"
  assumes "sorted ys" "ys \<noteq> []"
  shows "hd ys = Min (set ys)"
proof -
  obtain y rest where ys: "ys = y # rest"
    using assms(2) by (cases ys) auto
  then have "\<And>x. x \<in> set ys \<Longrightarrow> y \<le> x"
    using assms(1) by auto
  then have "Min (set ys) = y"
    using ys by (intro Min_eqI) auto
  then show ?thesis
    using ys by simp
qed


lemma replicates_scheduled:
  "replicates E (s\<lparr>scheduled := x\<rparr>) nd key = replicates E s nd key"
  by (simp add: replicates_def)

lemma welcome_loop_router: "router (welcome_loop E nd st s) = router s"
  by (induction st arbitrary: s) auto

lemma welcome_loop_storage: "storage (welcome_loop E nd st s) = storage s"
  by (induction st arbitrary: s) auto

lemma welcome_loop_source_node: "source_node (welcome_loop E nd st s) = source_node s"
  by (induction st arbitrary: s) auto

lemma welcome_loop_files: "files (welcome_loop E nd st s) = files s"
  by (induction st arbitrary: s) auto

lemma welcome_loop_scheduled:
  "scheduled (welcome_loop E nd st s) =
     scheduled s @ map (\<lambda>(key, v). CallStore nd key v)
                     (filter (\<lambda>(key, v). replicates E s nd key) st)"
proof (induction st arbitrary: s)
  case Nil
  show ?case by simp
next
  case (Cons kv rest)
  obtain key v where kv: "kv = (key, v)"
    by (cases kv) auto
  let ?s' = "if replicates E s nd key
             then s\<lparr>scheduled := scheduled s @ [CallStore nd key v]\<rparr> else s"
  have same: "\<And>k. replicates E ?s' nd k = replicates E s nd k"
    by (simp add: replicates_scheduled)
  have "scheduled (welcome_loop E nd (kv # rest) s) = scheduled (welcome_loop E nd rest ?s')"
    by (simp add: kv)
  also have "\<dots> = scheduled ?s' @ map (\<lambda>(key, v). CallStore nd key v)
                     (filter (\<lambda>(key, v). replicates E ?s' nd key) rest)"
    by (rule Cons.IH)
  also have "\<dots> = scheduled s @ map (\<lambda>(key, v). CallStore nd key v)
                     (filter (\<lambda>(key, v). replicates E s nd key) (kv # rest))"
    by (simp add: same kv)
  finally show ?case .
qed

lemma replicates_rule:
  assumes "ascending E (router s) (digest E key)"
  shows "replicates E s nd key =
           replicate_rule E (router s) (source_node s) nd (digest E key)"
proof (cases "find_neighbors E (router s) (Node (digest E key) None None) None = []")
  case True
  then show ?thesis
    by (simp add: replicates_def replicate_rule_def)
next
  case False
  let ?kn = "Node (digest E key) None None"
  let ?ns = "find_neighbors E (router s) ?kn None"
  let ?ds = "map (\<lambda>n. distance_to n ?kn) ?ns"
  have sorted: "sorted ?ds" and ne: "?ds \<noteq> []"
    using assms False by (simp_all add: ascending_def)
  have "last ?ds = Max (set ?ds)" and "hd ?ds = Min (set ?ds)"
    using sorted ne by (rule last_sorted_Max, rule hd_sorted_Min)
  then have "distance_to (last ?ns) ?kn = farthest ?kn ?ns"
    and "distance_to (hd ?ns) ?kn = nearest ?kn ?ns"
    using False by (simp_all add: farthest_def nearest_def last_map hd_map)
  then show ?thesis
    using False by (simp add: replicates_def replicate_rule_def Let_def)
qed

lemma welcome_if_new_scheduled:
  assumes "is_new_node E (router s) c"
  shows "scheduled (welcome_if_new E s c) =
           scheduled s @ map (\<lambda>(key, v). CallStore c key v)
                           (filter (\<lambda>(key, v). replicates E s c key) (storage s))"
  using assms by (simp add: welcome_if_new_def Let_def welcome_loop_scheduled)

section \<open>Admission and the liveness feedback\<close>

lemma welcome_if_new_router:
  "router (welcome_if_new E s c) =
     (if is_new_node E (router s) c then add_contact E (router s) c else router s)"
  by (simp add: welcome_if_new_def Let_def welcome_loop_router)

lemma welcome_if_new_storage: "storage (welcome_if_new E s c) = storage s"
  by (simp add: welcome_if_new_def Let_def welcome_loop_storage)

lemma welcome_if_new_source_node: "source_node (welcome_if_new E s c) = source_node s"
  by (simp add: welcome_if_new_def Let_def welcome_loop_source_node)

lemma welcome_if_new_files: "files (welcome_if_new E s c) = files s"
  by (simp add: welcome_if_new_def Let_def welcome_loop_files)

lemma table3_new: "is_new_node table3 r c \<longleftrightarrow> id' c \<notin> set (map id' r)"
  by (simp add: table3_def one_bucket_def)

lemma table3_remove: "remove_contact table3 r c = filter (\<lambda>m. id' m \<noteq> id' c) r"
  by (simp add: table3_def one_bucket_def)

lemma table3_add:
  "add_contact table3 r c =
     (if id' c \<in> set (map id' r) then filter (\<lambda>m. id' m \<noteq> id' c) r @ [c]
      else if length r < 3 then r @ [c] else r)"
  by (simp add: table3_def one_bucket_def)

lemma contact_id: "id' (contact i) = i"
  by (simp add: contact_def Node_def)

lemma holder_fields:
  "router holder = [contact 9, contact 6]"
  "storage holder = [(1, PyBytes [1]), (12, PyNone)]"
  "source_node holder = Node 0 None None"
  "files holder = Map.empty"
  "scheduled holder = []"
  by (simp_all add: holder_def start_def)

text \<open>
  Claim C2.  \<open>handle_call_response\<close> returns the result it was given.  On a result that is
  not a success it replaces the routing table by \<open>remove_contact\<close> of the contact and
  changes nothing else (no admission, no store call).  On a success its state is that of
  \<open>welcome_if_new\<close> for the contact, whose routing table is the old one, with
  \<open>add_contact\<close> applied when the contact was new: nothing is removed.
\<close>

theorem handle_call_response_feedback:
  "fst (handle_call_response E s result c) = result
   \<and> (\<not> fst result \<longrightarrow>
        snd (handle_call_response E s result c) = s\<lparr>router := remove_contact E (router s) c\<rparr>)
   \<and> (fst result \<longrightarrow>
        snd (handle_call_response E s result c) = welcome_if_new E s c
        \<and> router (snd (handle_call_response E s result c)) =
            (if is_new_node E (router s) c then add_contact E (router s) c else router s))"
  by (simp add: handle_call_response_def welcome_if_new_router)

theorem handle_call_response_feedback_witness:
  "handle_call_response table3 holder (False, PyNone) (contact 9) =
     ((False, PyNone), holder\<lparr>router := [contact 6]\<rparr>)
   \<and> fst (handle_call_response table3 holder (True, PyInt 1) (contact 3)) = (True, PyInt 1)
   \<and> router (snd (handle_call_response table3 holder (True, PyInt 1) (contact 3))) =
       [contact 9, contact 6, contact 3]
   \<and> snd (handle_call_response table3 holder (True, PyInt 1) (contact 3)) =
       welcome_if_new table3 holder (contact 3)"
proof -
  have failed: "remove_contact table3 (router holder) (contact 9) = [contact 6]"
    by (simp add: table3_remove holder_fields contact_id)
  have new: "is_new_node table3 (router holder) (contact 3)"
    by (simp add: table3_new holder_fields contact_id)
  have added: "add_contact table3 (router holder) (contact 3) = [contact 9, contact 6, contact 3]"
    by (simp add: table3_add holder_fields contact_id)
  note down = handle_call_response_feedback [of table3 holder "(False, PyNone)" "contact 9"]
  note up = handle_call_response_feedback [of table3 holder "(True, PyInt 1)" "contact 3"]
  have "handle_call_response table3 holder (False, PyNone) (contact 9) =
          ((False, PyNone), holder\<lparr>router := [contact 6]\<rparr>)"
    using down failed by (simp add: prod_eq_iff)
  moreover have "fst (handle_call_response table3 holder (True, PyInt 1) (contact 3)) = (True, PyInt 1)"
    using up by simp
  moreover have "router (snd (handle_call_response table3 holder (True, PyInt 1) (contact 3))) =
          [contact 9, contact 6, contact 3]"
    using up new added by (simp add: welcome_if_new_router)
  moreover have "snd (handle_call_response table3 holder (True, PyInt 1) (contact 3)) =
          welcome_if_new table3 holder (contact 3)"
    using up by simp
  ultimately show ?thesis by blast
qed

text \<open>
  Claim C4, as stated, fails: for a contact that is already in the routing table
  \<open>welcome_if_new\<close> returns at once and does not call \<open>add_contact\<close>.  Contact 9 is the
  least recently seen of the table; it stays there, where \<open>add_contact\<close> would have moved
  it to the most recently seen end.
\<close>

theorem welcome_if_new_refresh_counterexample:
  "\<not> is_new_node table3 (router holder) (contact 9)
   \<and> router (welcome_if_new table3 holder (contact 9)) = [contact 9, contact 6]
   \<and> add_contact table3 (router holder) (contact 9) = [contact 6, contact 9]
   \<and> router (welcome_if_new table3 holder (contact 9)) \<noteq>
       add_contact table3 (router holder) (contact 9)"
  by (simp add: welcome_if_new_router table3_new table3_add holder_fields contact_id)
    (simp add: contact_def Node_def)

text \<open>
  Claim C4, amended.  For a contact that is already in the routing table
  \<open>welcome_if_new\<close> leaves the whole state as it is: it schedules no store call and does
  not touch the routing table.
\<close>

theorem welcome_if_new_known:
  "\<not> is_new_node E (router s) c \<Longrightarrow> welcome_if_new E s c = s"
  by (simp add: welcome_if_new_def)

theorem welcome_if_new_known_witness:
  "\<not> is_new_node table3 (router holder) (contact 9)
   \<and> welcome_if_new table3 holder (contact 9) = holder"
proof -
  have known: "\<not> is_new_node table3 (router holder) (contact 9)"
    by (simp add: table3_new holder_fields contact_id)
  show ?thesis
    using welcome_if_new_known [OF known] known by simp
qed

section \<open>The inbound handlers and admission\<close>

lemma source_of_contact: "source_of (''10.0.0.1'', 8468) i = contact i"
  by (simp add: source_of_def contact_def)

lemma rpc_file_store_state:
  "\<exists>fs. snd (rpc_file_store E s sender nodeid key v) =
          (welcome_if_new E s (source_of sender nodeid))\<lparr>files := fs\<rparr>"
  by (auto simp: rpc_file_store_def Let_def split: sum.splits)

lemma rpc_find_file_state:
  "snd (rpc_find_file E s sender nodeid key) = welcome_if_new E s (source_of sender nodeid)"
  by (simp add: rpc_find_file_def Let_def split: option.splits sum.splits)

lemma rpc_find_value_state:
  "snd (rpc_find_value E s sender nodeid key) =
     (if storage_get (storage s) key PyNone = PyNone
      then welcome_if_new E (welcome_if_new E s (source_of sender nodeid)) (source_of sender nodeid)
      else welcome_if_new E s (source_of sender nodeid))"
  by (simp add: rpc_find_value_def rpc_find_node_def Let_def welcome_if_new_storage)

text \<open>
  Claim C3, as stated, fails for \<open>stun\<close>: \<open>rpc_stun\<close> takes the sender address only
  (no claimed id), builds no contact and runs no admission.  In a state where admitting the
  sender would add contact 3 to the routing table, \<open>rpc_stun\<close> leaves the table as it is.
\<close>

theorem rpc_stun_admits_counterexample:
  "rpc_stun holder (''10.0.0.1'', 8468) = ((''10.0.0.1'', 8468), holder)
   \<and> router (snd (rpc_stun holder (''10.0.0.1'', 8468))) = [contact 9, contact 6]
   \<and> router (welcome_if_new table3 holder (source_of (''10.0.0.1'', 8468) 3)) =
       [contact 9, contact 6, contact 3]
   \<and> snd (rpc_stun holder (''10.0.0.1'', 8468)) \<noteq>
       welcome_if_new table3 holder (source_of (''10.0.0.1'', 8468) 3)"
proof -
  have stun: "rpc_stun holder (''10.0.0.1'', 8468) = ((''10.0.0.1'', 8468), holder)"
    by (simp add: rpc_stun_def)
  have w: "router (welcome_if_new table3 holder (source_of (''10.0.0.1'', 8468) 3)) =
       [contact 9, contact 6, contact 3]"
    by (simp add: source_of_contact welcome_if_new_router table3_new table3_add holder_fields
          contact_id)
  have "router holder \<noteq> router (welcome_if_new table3 holder (source_of (''10.0.0.1'', 8468) 3))"
    by (simp add: w holder_fields)
  then have "holder \<noteq> welcome_if_new table3 holder (source_of (''10.0.0.1'', 8468) 3)"
    by auto
  then show ?thesis
    using stun w by (simp add: holder_fields)
qed

text \<open>
  Claim C3, amended.  Each of \<open>rpc_ping\<close>, \<open>rpc_store\<close>, \<open>rpc_file_store\<close>,
  \<open>rpc_find_file\<close>, \<open>rpc_find_node\<close> and \<open>rpc_find_value\<close> builds the contact
  \<open>source_of sender nodeid\<close> from the sender address and the claimed id and runs
  \<open>welcome_if_new\<close> for it first; its result and final state are computed from the state
  that admission leaves (\<open>rpc_find_value\<close> runs it a second time when it falls through to
  \<open>rpc_find_node\<close>).  \<open>rpc_stun\<close> returns the sender address and changes nothing.
\<close>

theorem rpc_handlers_admit:
  "rpc_ping E s sender nodeid =
     (id' (source_node s), welcome_if_new E s (source_of sender nodeid))
   \<and> rpc_store E s sender nodeid key v =
       (True, (welcome_if_new E s (source_of sender nodeid))
                \<lparr>storage := storage_set (storage s) key v\<rparr>)
   \<and> (\<exists>fs. snd (rpc_file_store E s sender nodeid key v) =
              (welcome_if_new E s (source_of sender nodeid))\<lparr>files := fs\<rparr>)
   \<and> snd (rpc_find_file E s sender nodeid key) = welcome_if_new E s (source_of sender nodeid)
   \<and> rpc_find_node E s sender nodeid key =
       (map tuple (find_neighbors E (router (welcome_if_new E s (source_of sender nodeid)))
                     (Node key None None) (Some (source_of sender nodeid))),
        welcome_if_new E s (source_of sender nodeid))
   \<and> snd (rpc_find_value E s sender nodeid key) =
       (if storage_get (storage s) key PyNone = PyNone
        then welcome_if_new E (welcome_if_new E s (source_of sender nodeid))
               (source_of sender nodeid)
        else welcome_if_new E s (source_of sender nodeid))
   \<and> rpc_stun s sender = (sender, s)"
proof -
  have "rpc_ping E s sender nodeid =
     (id' (source_node s), welcome_if_new E s (source_of sender nodeid))"
    by (simp add: rpc_ping_def Let_def welcome_if_new_source_node)
  moreover have "rpc_store E s sender nodeid key v =
       (True, (welcome_if_new E s (source_of sender nodeid))
                \<lparr>storage := storage_set (storage s) key v\<rparr>)"
    by (simp add: rpc_store_def Let_def welcome_if_new_storage)
  moreover have "rpc_find_node E s sender nodeid key =
       (map tuple (find_neighbors E (router (welcome_if_new E s (source_of sender nodeid)))
                     (Node key None None) (Some (source_of sender nodeid))),
        welcome_if_new E s (source_of sender nodeid))"
    by (simp add: rpc_find_node_def Let_def)
  moreover have "rpc_stun s sender = (sender, s)"
    by (simp add: rpc_stun_def)
  ultimately show ?thesis
    using rpc_file_store_state [of E s sender nodeid key v]
      rpc_find_file_state [of E s sender nodeid key]
      rpc_find_value_state [of E s sender nodeid key]
    by simp
qed

theorem rpc_handlers_admit_witness:
  "rpc_ping table3 holder (''10.0.0.1'', 8468) 3 = (0, welcome_if_new table3 holder (contact 3))
   \<and> router (snd (rpc_ping table3 holder (''10.0.0.1'', 8468) 3)) = [contact 9, contact 6, contact 3]
   \<and> fst (rpc_find_node table3 holder (''10.0.0.1'', 8468) 3 1) =
       [(6, Some ''10.0.0.1'', Some 8468), (9, Some ''10.0.0.1'', Some 8468)]"
proof -
  note h = rpc_handlers_admit [of table3 holder "(''10.0.0.1'', 8468)" 3 1 PyNone]
  have r: "router (welcome_if_new table3 holder (contact 3)) = [contact 9, contact 6, contact 3]"
    by (simp add: welcome_if_new_router table3_new table3_add holder_fields contact_id)
  have n: "find_neighbors table3 [contact 9, contact 6, contact 3] (Node 1 None None)
             (Some (contact 3)) = [contact 6, contact 9]"
    by (simp add: table3_def one_bucket_def contact_def Node_def distance_to_def)
  have "rpc_ping table3 holder (''10.0.0.1'', 8468) 3 = (0, welcome_if_new table3 holder (contact 3))"
    using h by (simp add: source_of_contact holder_fields Node_def)
  moreover have "router (snd (rpc_ping table3 holder (''10.0.0.1'', 8468) 3)) =
      [contact 9, contact 6, contact 3]"
    using h r by (simp add: source_of_contact)
  moreover have "fst (rpc_find_node table3 holder (''10.0.0.1'', 8468) 3 1) =
       [(6, Some ''10.0.0.1'', Some 8468), (9, Some ''10.0.0.1'', Some 8468)]"
    using h r n by (simp add: source_of_contact tuple_def contact_def Node_def)
  ultimately show ?thesis by blast
qed

section \<open>Replication on admission\<close>

lemma sha1_1: "sha1 1 = 0x9a8f128265e48cf2cb691b4cefccc0556d9cbd3a"
  by (simp add: sha1_def sha1_block_def Let_def extend_def rotl_def ch_def parity_def maj_def)

lemma sha1_12: "sha1 12 = 0x27234b74bfddb37fe9844744a6e583cf02953703"
  by (simp add: sha1_def sha1_block_def Let_def extend_def rotl_def ch_def parity_def maj_def)

lemma table3_digest: "digest table3 key = sha1 key"
  by (simp add: table3_def one_bucket_def)

lemma table3_find:
  "find_neighbors table3 r t ex =
     take 3 (sort_key (\<lambda>m. distance_to m t) (filter (\<lambda>m. Some m \<noteq> ex) r))"
  by (simp add: table3_def one_bucket_def)

lemma distance_to_ids: "distance_to (contact i) (Node t None None) = i XOR t"
  "distance_to (Node i None None) (Node t None None) = i XOR t"
  by (simp_all add: distance_to_def contact_def Node_def)

lemma holder_replicates:
  "\<not> replicates table3 holder (contact 3) 1"
  "replicates table3 holder (contact 3) 12"
  by (simp_all add: replicates_def holder_fields table3_digest table3_find sha1_1 sha1_12
        distance_to_ids)

text \<open>
  Claim C1 does not hold of the code.  \<open>welcome_if_new\<close> takes the neighbours of
  \<open>Node(digest(key))\<close> and measures the three distances of the rule to that node, the
  SHA-1 digest of the key, where the claim measures them to the key (lemma
  \<open>replicates_rule\<close>: the code applies the rule of the claim to the digest of the key).
  On a node with id 0 that knows the contacts 9 and 6 and holds the keys 1 and 12, a new
  contact 3 should receive key 1 and not key 12 by the rule of the claim; the code schedules
  the store call for key 12 and none for key 1.
\<close>

theorem welcome_if_new_digest_divergence:
  "is_new_node table3 (router holder) (contact 3)
   \<and> storage holder = [(1, PyBytes [1]), (12, PyNone)]
   \<and> ascending table3 (router holder) 1 \<and> ascending table3 (router holder) 12
   \<and> replicate_rule table3 (router holder) (source_node holder) (contact 3) 1
   \<and> \<not> replicate_rule table3 (router holder) (source_node holder) (contact 3) 12
   \<and> scheduled (welcome_if_new table3 holder (contact 3)) = [CallStore (contact 3) 12 PyNone]"
proof -
  have new: "is_new_node table3 (router holder) (contact 3)"
    by (simp add: table3_new holder_fields contact_id)
  have n1: "find_neighbors table3 [contact 9, contact 6] (Node 1 None None) None =
      [contact 6, contact 9]"
    and n12: "find_neighbors table3 [contact 9, contact 6] (Node 12 None None) None =
      [contact 9, contact 6]"
    by (simp_all add: table3_find distance_to_ids)
  have asc: "ascending table3 (router holder) 1" "ascending table3 (router holder) 12"
    by (simp_all add: ascending_def holder_fields n1 n12 distance_to_ids)
  have yes: "replicate_rule table3 (router holder) (source_node holder) (contact 3) 1"
    by (simp add: replicate_rule_def Let_def holder_fields n1 farthest_def nearest_def
          distance_to_ids)
  have no: "\<not> replicate_rule table3 (router holder) (source_node holder) (contact 3) 12"
    by (simp add: replicate_rule_def Let_def holder_fields n12 farthest_def nearest_def
          distance_to_ids)
  have "scheduled (welcome_if_new table3 holder (contact 3)) = [CallStore (contact 3) 12 PyNone]"
    by (simp add: welcome_if_new_scheduled [OF new] holder_replicates holder_fields)
  with new asc yes no show ?thesis
    by (simp add: holder_fields)
qed

section \<open>Value lookup: \<open>rpc_find_value\<close>\<close>

lemma rpc_find_value_falls_through:
  assumes "storage_get (storage s) key PyNone = PyNone"
  shows "rpc_find_value E s sender nodeid key =
           (Neighbors (fst (rpc_find_node E (welcome_if_new E s (source_of sender nodeid))
                              sender nodeid key)),
            snd (rpc_find_node E (welcome_if_new E s (source_of sender nodeid)) sender nodeid key))"
  using assms
  by (simp add: rpc_find_value_def Let_def welcome_if_new_storage split: prod.splits)

lemma rpc_find_value_router_only:
  assumes "storage_get (storage s) key PyNone = PyNone"
    and "storage_get (storage s') key PyNone = PyNone"
    and "router s' = router s"
  shows "fst (rpc_find_value E s' sender nodeid key) = fst (rpc_find_value E s sender nodeid key)"
  using assms
  by (simp add: rpc_find_value_falls_through rpc_find_node_def Let_def welcome_if_new_router)

lemma rpc_find_node_known:
  assumes "\<not> is_new_node E (router (welcome_if_new E s (source_of sender nodeid)))
               (source_of sender nodeid)"
  shows "rpc_find_node E (welcome_if_new E s (source_of sender nodeid)) sender nodeid key =
         rpc_find_node E s sender nodeid key"
proof -
  have "welcome_if_new E (welcome_if_new E s (source_of sender nodeid)) (source_of sender nodeid)
        = welcome_if_new E s (source_of sender nodeid)"
    using assms by (simp add: welcome_if_new_def [of E "welcome_if_new E s (source_of sender nodeid)"])
  then show ?thesis
    by (simp add: rpc_find_node_def Let_def)
qed

lemma rpc_find_value_reply:
  assumes "storage_get (storage s) key PyNone = PyNone"
    and "declines_quietly E (router (welcome_if_new E s (source_of sender nodeid)))
           (source_of sender nodeid) key"
  shows "fst (rpc_find_value E s sender nodeid key) =
           Neighbors (fst (rpc_find_node E s sender nodeid key))"
  using assms
  by (simp add: rpc_find_value_falls_through rpc_find_node_def Let_def declines_quietly_def
        welcome_if_new_router [of E "welcome_if_new E s (source_of sender nodeid)"])

lemma crowded_fields:
  "router crowded = [contact 9, contact 6, contact 10]"
  "storage crowded = [(1, PyBytes [1]), (12, PyNone)]"
  "source_node crowded = Node 0 None None"
  "files crowded = Map.empty"
  "scheduled crowded = []"
  by (simp_all add: crowded_def start_def)

lemma crowded_declines:
  "is_new_node table3 [contact 9, contact 6, contact 10] (contact 3)"
  "add_contact table3 [contact 9, contact 6, contact 10] (contact 3) =
     [contact 9, contact 6, contact 10]"
  by (simp_all add: table3_new table3_add contact_id)

lemma crowded_admitted:
  "router (welcome_if_new table3 crowded (contact 3)) = [contact 9, contact 6, contact 10]"
  by (simp add: welcome_if_new_router crowded_fields crowded_declines)

lemma crowded_declines_quietly:
  "declines_quietly table3 (router (welcome_if_new table3 crowded (contact 3))) (contact 3) key"
  by (simp add: declines_quietly_def crowded_admitted crowded_declines)

text \<open>
  Claim C5, as stated, fails for a key that the store holds with the value \<open>None\<close>: the
  key is present, yet \<open>rpc_find_value\<close> falls through to \<open>rpc_find_node\<close> and returns a
  neighbour list instead of \<open>{value: None}\<close>.
\<close>

theorem rpc_find_value_precedence_counterexample:
  "map_of (storage holder) 12 = Some PyNone
   \<and> fst (rpc_find_value table3 holder (''10.0.0.1'', 8468) 3 12) =
       Neighbors [(9, Some ''10.0.0.1'', Some 8468), (6, Some ''10.0.0.1'', Some 8468)]
   \<and> fst (rpc_find_value table3 holder (''10.0.0.1'', 8468) 3 12) \<noteq> Value PyNone"
proof -
  have st: "map_of (storage holder) 12 = Some PyNone"
    by (simp add: holder_fields)
  then have get: "storage_get (storage holder) 12 PyNone = PyNone"
    by (simp add: storage_get_def)
  have r: "router (welcome_if_new table3 (welcome_if_new table3 holder (contact 3)) (contact 3))
             = [contact 9, contact 6, contact 3]"
    by (simp add: welcome_if_new_router table3_new table3_add holder_fields contact_id)
  have n: "find_neighbors table3 [contact 9, contact 6, contact 3] (Node 12 None None)
             (Some (contact 3)) = [contact 9, contact 6]"
    by (simp add: table3_def one_bucket_def contact_def Node_def distance_to_def)
  have "fst (rpc_find_value table3 holder (''10.0.0.1'', 8468) 3 12) =
       Neighbors [(9, Some ''10.0.0.1'', Some 8468), (6, Some ''10.0.0.1'', Some 8468)]"
    by (simp add: rpc_find_value_falls_through [OF get] rpc_find_node_def Let_def
          source_of_contact r n) (simp add: tuple_def contact_def Node_def)
  then show ?thesis
    using st by simp
qed

text \<open>
  Claim C5, amended.  For a key that the store maps to a value other than \<open>None\<close>,
  \<open>rpc_find_value\<close> returns that value and ends in the state of its admission step: it
  does not fall through.  For a key absent from the store it returns the reply that
  \<open>rpc_find_node\<close> returns for the same sender, claimed id and key in the same state,
  over a routing table that keeps to the policy of \<open>add_contact\<close>: the handler admits
  the sender a second time on this path, and a table that has not taken the sender leaves the
  neighbours of the key as they were.
\<close>

theorem rpc_find_value_precedence:
  "(map_of (storage s) key = Some v \<and> v \<noteq> PyNone \<longrightarrow>
      rpc_find_value E s sender nodeid key =
        (Value v, welcome_if_new E s (source_of sender nodeid)))
   \<and> (map_of (storage s) key = None
       \<and> declines_quietly E (router (welcome_if_new E s (source_of sender nodeid)))
             (source_of sender nodeid) key \<longrightarrow>
      fst (rpc_find_value E s sender nodeid key) =
        Neighbors (fst (rpc_find_node E s sender nodeid key)))"
proof -
  have present: "rpc_find_value E s sender nodeid key =
        (Value v, welcome_if_new E s (source_of sender nodeid))"
    if "map_of (storage s) key = Some v" "v \<noteq> PyNone"
    using that by (simp add: rpc_find_value_def Let_def welcome_if_new_storage storage_get_def)
  have absent: "storage_get (storage s) key PyNone = PyNone" if "map_of (storage s) key = None"
    using that by (simp add: storage_get_def)
  show ?thesis
    using present absent rpc_find_value_reply [of s key E sender nodeid] by blast
qed

theorem rpc_find_value_precedence_witness:
  "map_of (storage crowded) 1 = Some (PyBytes [1])
   \<and> rpc_find_value table3 crowded (''10.0.0.1'', 8468) 3 1 =
       (Value (PyBytes [1]), welcome_if_new table3 crowded (contact 3))
   \<and> map_of (storage crowded) 4 = None
   \<and> is_new_node table3 (router (welcome_if_new table3 crowded (contact 3))) (contact 3)
   \<and> declines_quietly table3 (router (welcome_if_new table3 crowded (contact 3))) (contact 3) 4
   \<and> fst (rpc_find_value table3 crowded (''10.0.0.1'', 8468) 3 4) =
       Neighbors (fst (rpc_find_node table3 crowded (''10.0.0.1'', 8468) 3 4))
   \<and> fst (rpc_find_node table3 crowded (''10.0.0.1'', 8468) 3 4) =
       [(6, Some ''10.0.0.1'', Some 8468), (9, Some ''10.0.0.1'', Some 8468),
        (10, Some ''10.0.0.1'', Some 8468)]"
proof -
  have p: "map_of (storage crowded) 1 = Some (PyBytes [1])"
    and a: "map_of (storage crowded) 4 = None"
    by (simp_all add: crowded_fields)
  have new: "is_new_node table3 (router (welcome_if_new table3 crowded (contact 3))) (contact 3)"
    by (simp add: crowded_admitted crowded_declines)
  have q: "declines_quietly table3 (router (welcome_if_new table3 crowded (contact 3)))
             (contact 3) 4"
    by (rule crowded_declines_quietly)
  have n: "find_neighbors table3 [contact 9, contact 6, contact 10] (Node 4 None None)
             (Some (contact 3)) = [contact 6, contact 9, contact 10]"
    by (simp add: table3_find distance_to_ids) (simp add: contact_def Node_def)
  have f: "fst (rpc_find_node table3 crowded (''10.0.0.1'', 8468) 3 4) =
       [(6, Some ''10.0.0.1'', Some 8468), (9, Some ''10.0.0.1'', Some 8468),
        (10, Some ''10.0.0.1'', Some 8468)]"
    by (simp add: rpc_find_node_def Let_def source_of_contact crowded_admitted n)
      (simp add: tuple_def contact_def Node_def)
  note h = rpc_find_value_precedence [of crowded _ _ table3 "(''10.0.0.1'', 8468)" 3,
      unfolded source_of_contact]
  have "rpc_find_value table3 crowded (''10.0.0.1'', 8468) 3 1 =
       (Value (PyBytes [1]), welcome_if_new table3 crowded (contact 3))"
    using h [of 1 "PyBytes [1]"] p by blast
  moreover have "fst (rpc_find_value table3 crowded (''10.0.0.1'', 8468) 3 4) =
       Neighbors (fst (rpc_find_node table3 crowded (''10.0.0.1'', 8468) 3 4))"
    using h [of 4 PyNone] a q by blast
  ultimately show ?thesis
    using p a new q f by blast
qed

text \<open>
  Claim C10, as stated, fails in its first part: \<open>rpc_find_value\<close> does not behave
  exactly as \<open>rpc_find_node\<close>.  It has admitted the sender before it calls
  \<open>rpc_find_node\<close>, which admits the sender again.  Where the routing table has not taken
  the sender (a full bucket), the sender is new both times and the store call of the
  replication is scheduled twice, where \<open>rpc_find_node\<close> alone schedules it once.
\<close>

theorem rpc_find_value_none_counterexample:
  "map_of (storage crowded) 12 = Some PyNone
   \<and> scheduled (snd (rpc_find_node table3 crowded (''10.0.0.1'', 8468) 3 12)) =
       [CallStore (contact 3) 12 PyNone]
   \<and> scheduled (snd (rpc_find_value table3 crowded (''10.0.0.1'', 8468) 3 12)) =
       [CallStore (contact 3) 12 PyNone, CallStore (contact 3) 12 PyNone]"
proof -
  have st: "map_of (storage crowded) 12 = Some PyNone"
    by (simp add: crowded_fields)
  then have get: "storage_get (storage crowded) 12 PyNone = PyNone"
    by (simp add: storage_get_def)
  have new: "is_new_node table3 (router crowded) (contact 3)"
    by (simp add: crowded_fields crowded_declines)
  have again: "is_new_node table3 (router (welcome_if_new table3 crowded (contact 3))) (contact 3)"
    by (simp add: crowded_admitted crowded_declines)
  have rep: "\<not> replicates table3 crowded (contact 3) 1" "replicates table3 crowded (contact 3) 12"
    by (simp_all add: replicates_def crowded_fields table3_digest table3_find sha1_1 sha1_12
          distance_to_ids)
  have rep': "\<not> replicates table3 (welcome_if_new table3 crowded (contact 3)) (contact 3) 1"
    "replicates table3 (welcome_if_new table3 crowded (contact 3)) (contact 3) 12"
    by (simp_all add: replicates_def crowded_admitted welcome_if_new_source_node crowded_fields
          table3_digest table3_find sha1_1 sha1_12 distance_to_ids)
  have once: "scheduled (welcome_if_new table3 crowded (contact 3)) =
      [CallStore (contact 3) 12 PyNone]"
    by (simp add: welcome_if_new_scheduled [OF new] rep crowded_fields)
  have twice: "scheduled (welcome_if_new table3 (welcome_if_new table3 crowded (contact 3))
                            (contact 3)) =
      [CallStore (contact 3) 12 PyNone, CallStore (contact 3) 12 PyNone]"
    by (simp add: welcome_if_new_scheduled [OF again] once rep' welcome_if_new_storage
          crowded_fields)
  have "scheduled (snd (rpc_find_node table3 crowded (''10.0.0.1'', 8468) 3 12)) =
       [CallStore (contact 3) 12 PyNone]"
    by (simp add: rpc_find_node_def Let_def source_of_contact once)
  moreover have "scheduled (snd (rpc_find_value table3 crowded (''10.0.0.1'', 8468) 3 12)) =
       [CallStore (contact 3) 12 PyNone, CallStore (contact 3) 12 PyNone]"
    by (simp add: rpc_find_value_falls_through [OF get] rpc_find_node_def Let_def
          source_of_contact twice)
  ultimately show ?thesis
    using st by simp
qed

text \<open>
  Claim C10, amended.  For a key that the store maps to \<open>None\<close>, \<open>rpc_find_value\<close>
  returns a neighbour list and not \<open>{value: None}\<close>: the reply of \<open>rpc_find_node\<close> for
  the same sender, claimed id and key in the same state, over a routing table that keeps to
  the policy of \<open>add_contact\<close>.  Its final state is that of \<open>rpc_find_node\<close> run after
  one more admission of the sender; it is the final state of \<open>rpc_find_node\<close> itself
  when the routing table knows the sender once admitted.  The reply is the one given in any
  state with the same routing table where the key is absent.
\<close>

theorem rpc_find_value_none:
  assumes "map_of (storage s) key = Some PyNone"
  shows "(\<exists>ns. fst (rpc_find_value E s sender nodeid key) = Neighbors ns)
         \<and> fst (rpc_find_value E s sender nodeid key) \<noteq> Value PyNone
         \<and> (declines_quietly E (router (welcome_if_new E s (source_of sender nodeid)))
               (source_of sender nodeid) key \<longrightarrow>
              fst (rpc_find_value E s sender nodeid key) =
                Neighbors (fst (rpc_find_node E s sender nodeid key)))
         \<and> snd (rpc_find_value E s sender nodeid key) =
               snd (rpc_find_node E (welcome_if_new E s (source_of sender nodeid))
                      sender nodeid key)
         \<and> (\<not> is_new_node E (router (welcome_if_new E s (source_of sender nodeid)))
                 (source_of sender nodeid) \<longrightarrow>
              snd (rpc_find_value E s sender nodeid key) =
                snd (rpc_find_node E s sender nodeid key))
         \<and> (\<forall>s'. router s' = router s \<and> map_of (storage s') key = None \<longrightarrow>
               fst (rpc_find_value E s' sender nodeid key) =
               fst (rpc_find_value E s sender nodeid key))"
proof -
  have get: "storage_get (storage s) key PyNone = PyNone"
    using assms by (simp add: storage_get_def)
  note through = rpc_find_value_falls_through [OF get, of E sender nodeid]
  have list: "\<exists>ns. fst (rpc_find_value E s sender nodeid key) = Neighbors ns"
    and not_none: "fst (rpc_find_value E s sender nodeid key) \<noteq> Value PyNone"
    and state: "snd (rpc_find_value E s sender nodeid key) =
               snd (rpc_find_node E (welcome_if_new E s (source_of sender nodeid))
                      sender nodeid key)"
    by (simp_all add: through)
  have reply: "fst (rpc_find_value E s sender nodeid key) =
                Neighbors (fst (rpc_find_node E s sender nodeid key))"
    if "declines_quietly E (router (welcome_if_new E s (source_of sender nodeid)))
               (source_of sender nodeid) key"
    using get that by (rule rpc_find_value_reply)
  have known: "snd (rpc_find_value E s sender nodeid key) =
                snd (rpc_find_node E s sender nodeid key)"
    if "\<not> is_new_node E (router (welcome_if_new E s (source_of sender nodeid)))
                 (source_of sender nodeid)"
    using that by (simp add: state rpc_find_node_known)
  have same: "fst (rpc_find_value E s' sender nodeid key) =
      fst (rpc_find_value E s sender nodeid key)"
    if "router s' = router s" "map_of (storage s') key = None" for s'
  proof -
    have "storage_get (storage s') key PyNone = PyNone"
      using that(2) by (simp add: storage_get_def)
    then show ?thesis
      by (rule rpc_find_value_router_only [OF get _ that(1)])
  qed
  from list not_none reply state known same show ?thesis
    by blast
qed

theorem rpc_find_value_none_witness:
  "map_of (storage crowded) 12 = Some PyNone
   \<and> declines_quietly table3 (router (welcome_if_new table3 crowded (contact 3))) (contact 3) 12
   \<and> fst (rpc_find_value table3 crowded (''10.0.0.1'', 8468) 3 12) =
       Neighbors (fst (rpc_find_node table3 crowded (''10.0.0.1'', 8468) 3 12))
   \<and> fst (rpc_find_node table3 crowded (''10.0.0.1'', 8468) 3 12) =
       [(9, Some ''10.0.0.1'', Some 8468), (10, Some ''10.0.0.1'', Some 8468),
        (6, Some ''10.0.0.1'', Some 8468)]
   \<and> router (crowded\<lparr>storage := [(1, PyBytes [1])]\<rparr>) = router crowded
   \<and> map_of (storage (crowded\<lparr>storage := [(1, PyBytes [1])]\<rparr>)) 12 = None
   \<and> fst (rpc_find_value table3 (crowded\<lparr>storage := [(1, PyBytes [1])]\<rparr>)
            (''10.0.0.1'', 8468) 3 12) =
       fst (rpc_find_value table3 crowded (''10.0.0.1'', 8468) 3 12)
   \<and> map_of (storage holder) 12 = Some PyNone
   \<and> \<not> is_new_node table3 (router (welcome_if_new table3 holder (contact 3))) (contact 3)
   \<and> snd (rpc_find_value table3 holder (''10.0.0.1'', 8468) 3 12) =
       snd (rpc_find_node table3 holder (''10.0.0.1'', 8468) 3 12)"
proof -
  have st: "map_of (storage crowded) 12 = Some PyNone"
    and st': "map_of (storage holder) 12 = Some PyNone"
    by (simp_all add: crowded_fields holder_fields)
  note h = rpc_find_value_none [OF st, of table3 "(''10.0.0.1'', 8468)" 3,
      unfolded source_of_contact]
  note h' = rpc_find_value_none [OF st', of table3 "(''10.0.0.1'', 8468)" 3,
      unfolded source_of_contact]
  have q: "declines_quietly table3 (router (welcome_if_new table3 crowded (contact 3)))
             (contact 3) 12"
    by (rule crowded_declines_quietly)
  have n: "find_neighbors table3 [contact 9, contact 6, contact 10] (Node 12 None None)
             (Some (contact 3)) = [contact 9, contact 10, contact 6]"
    by (simp add: table3_find distance_to_ids) (simp add: contact_def Node_def)
  have f: "fst (rpc_find_node table3 crowded (''10.0.0.1'', 8468) 3 12) =
       [(9, Some ''10.0.0.1'', Some 8468), (10, Some ''10.0.0.1'', Some 8468),
        (6, Some ''10.0.0.1'', Some 8468)]"
    by (simp add: rpc_find_node_def Let_def source_of_contact crowded_admitted n)
      (simp add: tuple_def contact_def Node_def)
  have known: "\<not> is_new_node table3 (router (welcome_if_new table3 holder (contact 3)))
                   (contact 3)"
    by (simp add: welcome_if_new_router table3_new table3_add holder_fields contact_id)
  have "fst (rpc_find_value table3 crowded (''10.0.0.1'', 8468) 3 12) =
       Neighbors (fst (rpc_find_node table3 crowded (''10.0.0.1'', 8468) 3 12))"
    using h q by blast
  moreover have "fst (rpc_find_value table3 (crowded\<lparr>storage := [(1, PyBytes [1])]\<rparr>)
            (''10.0.0.1'', 8468) 3 12) =
       fst (rpc_find_value table3 crowded (''10.0.0.1'', 8468) 3 12)"
    using h by simp
  moreover have "snd (rpc_find_value table3 holder (''10.0.0.1'', 8468) 3 12) =
       snd (rpc_find_node table3 holder (''10.0.0.1'', 8468) 3 12)"
    using h' known by blast
  ultimately show ?thesis
    using st st' q f known by simp
qed

section \<open>Blobs: \<open>rpc_file_store\<close> and \<open>rpc_find_file\<close>\<close>

lemma last_path_join: "b \<noteq> [] \<Longrightarrow> last (path_join a b) = last b"
  by (simp add: path_join_def)

lemma kad_txt_distinct: "kad_file E key \<noteq> txt_file E key'"
proof
  assume eq: "kad_file E key = txt_file E key'"
  have "last (kad_file E key) = CHR ''d''"
    by (simp add: kad_file_def last_path_join)
  moreover have "last (txt_file E key') = CHR ''t''"
    by (simp add: txt_file_def last_path_join)
  ultimately show False
    using eq by simp
qed

lemma rpc_file_store_bytes:
  "rpc_file_store E s sender nodeid key (PyBytes b) =
     (Inr True, (welcome_if_new E s (source_of sender nodeid))
                  \<lparr>files := (files s)(kad_file E key \<mapsto> b)\<rparr>)"
  by (simp add: rpc_file_store_def Let_def binary_data_def open_w_def welcome_if_new_files)

lemma rpc_file_store_str:
  assumes "text_encode E t = Inr bs"
  shows "rpc_file_store E s sender nodeid key (PyStr t) =
     (Inr True, (welcome_if_new E s (source_of sender nodeid))
                  \<lparr>files := (files s)(kad_file E key := None, txt_file E key \<mapsto> bs)\<rparr>)"
  using assms
  by (simp add: rpc_file_store_def Let_def binary_data_def text_data_def open_w_def os_remove_def
        welcome_if_new_files)

lemma rpc_file_store_unencodable:
  assumes "text_encode E t = Inl e"
  shows "rpc_file_store E s sender nodeid key (PyStr t) =
     (Inl e, (welcome_if_new E s (source_of sender nodeid))
                  \<lparr>files := (files s)(kad_file E key := None, txt_file E key \<mapsto> [])\<rparr>)"
  using assms
  by (simp add: rpc_file_store_def Let_def binary_data_def text_data_def open_w_def os_remove_def
        welcome_if_new_files)

lemma rpc_file_store_other:
  assumes "v = PyNone \<or> (\<exists>n. v = PyInt n)"
  shows "rpc_file_store E s sender nodeid key v =
     (Inl TypeError, (welcome_if_new E s (source_of sender nodeid))
                  \<lparr>files := (files s)(kad_file E key := None, txt_file E key \<mapsto> [])\<rparr>)"
  using assms
  by (auto simp: rpc_file_store_def Let_def binary_data_def text_data_def open_w_def os_remove_def
        welcome_if_new_files)

lemma rpc_file_store_returns:
  assumes "fst (rpc_file_store E s sender nodeid key v) = Inr True"
  shows "(\<exists>b. v = PyBytes b) \<or> (\<exists>t bs. v = PyStr t \<and> text_encode E t = Inr bs)"
proof (cases v)
  case PyNone
  then show ?thesis
    using assms by (simp add: rpc_file_store_other)
next
  case (PyBytes b)
  then show ?thesis by simp
next
  case (PyStr t)
  show ?thesis
  proof (cases "text_encode E t")
    case (Inl e)
    then show ?thesis
      using assms PyStr by (simp add: rpc_file_store_unencodable)
  next
    case (Inr bs)
    then show ?thesis
      using PyStr by simp
  qed
next
  case (PyInt n)
  then show ?thesis
    using assms by (simp add: rpc_file_store_other)
qed

lemma rpc_find_file_reply:
  "fst (rpc_find_file E s sender nodeid key) =
     (case files s (kad_file E key) of
        Some b \<Rightarrow> Inr (Value (PyBytes b))
      | None \<Rightarrow>
          (case files s (txt_file E key) of
             Some b \<Rightarrow> (case text_decode E b of Inl e \<Rightarrow> Inl e | Inr t \<Rightarrow> Inr (Value (PyStr t)))
           | None \<Rightarrow> Inr (Value PyNone)))"
  by (simp add: rpc_find_file_def Let_def welcome_if_new_files split: option.splits sum.splits)

lemma table3_codec:
  "text_encode table3 t = ascii_encode t"
  "text_decode table3 bs = ascii_decode bs"
  by (simp_all add: table3_def one_bucket_def)

lemma ascii_read_back:
  assumes "ascii_encode t = Inr bs"
  shows "ascii_decode bs = Inr (universal_newlines t)"
proof -
  have ascii: "list_all (\<lambda>c. (of_char c :: nat) < 128) t"
    and bs: "bs = map (\<lambda>c. of_nat (of_char c)) t"
    using assms by (simp_all add: ascii_encode_def split: if_splits)
  have small: "(of_nat (of_char c) :: 8 word) < 128" if "(of_char c :: nat) < 128" for c
    using that by (simp add: word_less_nat_alt unat_of_nat)
  have inv: "char_of (unat (of_nat (of_char c) :: 8 word)) = c" for c
    by (simp add: unat_of_nat)
  have "list_all (\<lambda>b. b < 128) bs"
    using ascii small by (simp add: bs list_all_iff)
  moreover have "map (\<lambda>b. char_of (unat b)) bs = t"
    by (simp add: bs comp_def inv)
  ultimately show ?thesis
    by (simp add: ascii_decode_def)
qed

lemma ascii_ab: "ascii_encode ''ab'' = Inr [97, 98]"
  by (simp add: ascii_encode_def)

lemma ascii_crlf:
  "ascii_encode [CHR ''a'', CHR 0x0D, CHR 0x0A, CHR ''b''] = Inr [97, 13, 10, 98]"
  by (simp add: ascii_encode_def)

lemma ascii_beyond: "ascii_encode [CHR 0xE9] = Inl UnicodeEncodeError"
  by (simp add: ascii_encode_def)

text \<open>
  Claim C7.  \<open>rpc_find_file\<close> answers from the binary file of the key when there is one;
  when there is none, from the text file of the key, read as text; and when there is
  neither it returns \<open>{value: None}\<close> as an ordinary result, not as an error.
\<close>

theorem rpc_find_file_order:
  "(files s (kad_file E key) = Some b \<longrightarrow>
      fst (rpc_find_file E s sender nodeid key) = Inr (Value (PyBytes b)))
   \<and> (files s (kad_file E key) = None \<and> files s (txt_file E key) = Some b \<longrightarrow>
      fst (rpc_find_file E s sender nodeid key) =
        (case text_decode E b of Inl e \<Rightarrow> Inl e | Inr t \<Rightarrow> Inr (Value (PyStr t))))
   \<and> (files s (kad_file E key) = None \<and> files s (txt_file E key) = None \<longrightarrow>
      fst (rpc_find_file E s sender nodeid key) = Inr (Value PyNone))"
  by (simp add: rpc_find_file_reply)

theorem rpc_find_file_order_witness:
  "fst (rpc_find_file table3
          (holder\<lparr>files := Map.empty(kad_file table3 255 \<mapsto> [1, 2],
                                     txt_file table3 255 \<mapsto> [97, 98])\<rparr>)
          (''10.0.0.1'', 8468) 3 255) = Inr (Value (PyBytes [1, 2]))
   \<and> fst (rpc_find_file table3
          (holder\<lparr>files := Map.empty(txt_file table3 255 \<mapsto> [97, 98])\<rparr>)
          (''10.0.0.1'', 8468) 3 255) = Inr (Value (PyStr ''ab''))
   \<and> fst (rpc_find_file table3 holder (''10.0.0.1'', 8468) 3 255) = Inr (Value PyNone)"
proof -
  let ?both = "holder\<lparr>files := Map.empty(kad_file table3 255 \<mapsto> [1, 2],
                                     txt_file table3 255 \<mapsto> [97, 98])\<rparr>"
  let ?text = "holder\<lparr>files := Map.empty(txt_file table3 255 \<mapsto> [97, 98])\<rparr>"
  have read: "text_decode table3 [97, 98] = Inr ''ab''"
    using ascii_read_back [OF ascii_ab] by (simp add: table3_codec)
  have "files ?both (kad_file table3 255) = Some [1, 2]"
    by (simp add: kad_txt_distinct)
  then have first: "fst (rpc_find_file table3 ?both (''10.0.0.1'', 8468) 3 255) =
      Inr (Value (PyBytes [1, 2]))"
    using rpc_find_file_order [of ?both table3 255 "[1, 2]" "(''10.0.0.1'', 8468)" 3] by blast
  have "files ?text (kad_file table3 255) = None"
    and "files ?text (txt_file table3 255) = Some [97, 98]"
    by (simp_all add: kad_txt_distinct)
  then have second: "fst (rpc_find_file table3 ?text (''10.0.0.1'', 8468) 3 255) =
      Inr (Value (PyStr ''ab''))"
    using rpc_find_file_order [of ?text table3 255 "[97, 98]" "(''10.0.0.1'', 8468)" 3]
    by (simp add: read)
  have "files holder (kad_file table3 255) = None"
    and "files holder (txt_file table3 255) = None"
    by (simp_all add: holder_fields)
  then have third: "fst (rpc_find_file table3 holder (''10.0.0.1'', 8468) 3 255) =
      Inr (Value PyNone)"
    using rpc_find_file_order [of holder table3 255 "[]" "(''10.0.0.1'', 8468)" 3] by blast
  from first second third show ?thesis by blast
qed

text \<open>
  Claim C8, as stated, fails in two ways.  A value that is neither \<open>bytes\<close> nor \<open>str\<close>,
  such as an \<open>int\<close>, cannot be written to the text file either: the \<open>TypeError\<close> of the
  second write leaves the handler.  And a \<open>str\<close> that the codec of the platform cannot
  encode (here a character beyond ASCII on an ASCII platform) makes the text-mode write
  raise \<open>UnicodeEncodeError\<close>, which leaves the handler as well.  In both cases
  \<open>rpc_file_store\<close> does not return \<open>True\<close>.
\<close>

theorem rpc_file_store_fallback_counterexample:
  "binary_data (PyInt 7) = Inl TypeError
   \<and> fst (rpc_file_store table3 holder (''10.0.0.1'', 8468) 3 255 (PyInt 7)) = Inl TypeError
   \<and> binary_data (PyStr [CHR 0xE9]) = Inl TypeError
   \<and> fst (rpc_file_store table3 holder (''10.0.0.1'', 8468) 3 255 (PyStr [CHR 0xE9])) =
       Inl UnicodeEncodeError"
proof -
  have "text_encode table3 [CHR 0xE9] = Inl UnicodeEncodeError"
    by (simp add: table3_codec ascii_beyond)
  then show ?thesis
    by (simp add: binary_data_def rpc_file_store_other rpc_file_store_unencodable)
qed

text \<open>
  Claim C8, amended.  For every key and every \<open>str\<close> value that the text-mode write can
  encode (a \<open>str\<close> cannot be written to the binary file), \<open>rpc_file_store\<close> returns
  \<open>True\<close>; afterwards the binary file of the key is gone, the text file of the key holds
  the encoded text, and no other file has changed.
\<close>

theorem rpc_file_store_fallback:
  "binary_data (PyStr t) = Inl TypeError
   \<and> (text_encode E t = Inr bs \<longrightarrow>
        fst (rpc_file_store E s sender nodeid key (PyStr t)) = Inr True
        \<and> files (snd (rpc_file_store E s sender nodeid key (PyStr t))) =
            (files s)(kad_file E key := None, txt_file E key \<mapsto> bs)
        \<and> files (snd (rpc_file_store E s sender nodeid key (PyStr t))) (kad_file E key) = None
        \<and> files (snd (rpc_file_store E s sender nodeid key (PyStr t))) (txt_file E key) =
            Some bs)"
  by (simp add: binary_data_def rpc_file_store_str kad_txt_distinct)

theorem rpc_file_store_fallback_witness:
  "text_encode table3 ''ab'' = Inr [97, 98]
   \<and> fst (rpc_file_store table3 (holder\<lparr>files := Map.empty(kad_file table3 255 \<mapsto> [1, 2])\<rparr>)
          (''10.0.0.1'', 8468) 3 255 (PyStr ''ab'')) = Inr True
   \<and> files (snd (rpc_file_store table3 (holder\<lparr>files := Map.empty(kad_file table3 255 \<mapsto> [1, 2])\<rparr>)
          (''10.0.0.1'', 8468) 3 255 (PyStr ''ab'')))
         ''/srv/kademlia/store/files/00000000000000000000000000000000000000ff.kad'' = None
   \<and> files (snd (rpc_file_store table3 (holder\<lparr>files := Map.empty(kad_file table3 255 \<mapsto> [1, 2])\<rparr>)
          (''10.0.0.1'', 8468) 3 255 (PyStr ''ab'')))
         ''/srv/kademlia/store/00000000000000000000000000000000000000ff.txt'' = Some [97, 98]"
proof -
  have paths:
    "kad_file table3 255 = ''/srv/kademlia/store/files/00000000000000000000000000000000000000ff.kad''"
    "txt_file table3 255 = ''/srv/kademlia/store/00000000000000000000000000000000000000ff.txt''"
    by (simp_all add: kad_file_def txt_file_def files_path_def data_path_def path_join_def
          table3_def one_bucket_def hex_def hexdigit_def upt_rec)
  have enc: "text_encode table3 ''ab'' = Inr [97, 98]"
    by (simp add: table3_codec ascii_ab)
  note h = rpc_file_store_fallback [of "''ab''" table3 "[97, 98]"
        "holder\<lparr>files := Map.empty(kad_file table3 255 \<mapsto> [1, 2])\<rparr>" "(''10.0.0.1'', 8468)" 3 255]
  show ?thesis
    using h enc unfolding paths by blast
qed

text \<open>
  Claim C6, as stated, fails for a \<open>str\<close> value with a carriage return: the blob-store
  succeeds and writes the text as it is, but the blob-find reads the text file in text mode,
  where \<open>CR LF\<close> comes back as \<open>LF\<close>.  The value returned is not the value stored.
\<close>

theorem blob_round_trip_counterexample:
  "fst (rpc_file_store table3 holder (''10.0.0.1'', 8468) 3 255
          (PyStr [CHR ''a'', CHR 0x0D, CHR 0x0A, CHR ''b''])) = Inr True
   \<and> fst (rpc_find_file table3
            (snd (rpc_file_store table3 holder (''10.0.0.1'', 8468) 3 255
                    (PyStr [CHR ''a'', CHR 0x0D, CHR 0x0A, CHR ''b''])))
            (''10.0.0.1'', 8468) 3 255) = Inr (Value (PyStr [CHR ''a'', CHR 0x0A, CHR ''b'']))
   \<and> fst (rpc_find_file table3
            (snd (rpc_file_store table3 holder (''10.0.0.1'', 8468) 3 255
                    (PyStr [CHR ''a'', CHR 0x0D, CHR 0x0A, CHR ''b''])))
            (''10.0.0.1'', 8468) 3 255) \<noteq>
       Inr (Value (PyStr [CHR ''a'', CHR 0x0D, CHR 0x0A, CHR ''b'']))"
proof -
  have enc: "text_encode table3 [CHR ''a'', CHR 0x0D, CHR 0x0A, CHR ''b''] = Inr [97, 13, 10, 98]"
    by (simp add: table3_codec ascii_crlf)
  have dec: "text_decode table3 [97, 13, 10, 98] = Inr [CHR ''a'', CHR 0x0A, CHR ''b'']"
    using ascii_read_back [OF ascii_crlf] by (simp add: table3_codec)
  show ?thesis
    by (simp add: rpc_file_store_str [OF enc] rpc_find_file_reply kad_txt_distinct dec)
qed

text \<open>
  Claim C6, amended.  For every key and every \<open>bytes\<close> value, the blob-store returns
  \<open>True\<close> and a blob-find of the key on the resulting state, by any caller, returns that
  value.  For a \<open>str\<close> value that the text-mode write can encode, the blob-store returns
  \<open>True\<close> and the blob-find returns what a text-mode read makes of the bytes written:
  the value itself exactly when that read gives the text back unchanged.  The blob-store
  returns for no other value.
\<close>

theorem blob_round_trip:
  "fst (rpc_file_store E s sender nodeid key (PyBytes b)) = Inr True
   \<and> fst (rpc_find_file E (snd (rpc_file_store E s sender nodeid key (PyBytes b)))
            sender' nodeid' key) = Inr (Value (PyBytes b))
   \<and> (text_encode E t = Inr bs \<longrightarrow>
        fst (rpc_file_store E s sender nodeid key (PyStr t)) = Inr True
        \<and> fst (rpc_find_file E (snd (rpc_file_store E s sender nodeid key (PyStr t)))
              sender' nodeid' key) =
            (case text_decode E bs of Inl e \<Rightarrow> Inl e | Inr t' \<Rightarrow> Inr (Value (PyStr t'))))
   \<and> (text_encode E t = Inr bs \<and> text_decode E bs = Inr t \<longrightarrow>
        fst (rpc_find_file E (snd (rpc_file_store E s sender nodeid key (PyStr t)))
              sender' nodeid' key) = Inr (Value (PyStr t)))
   \<and> (fst (rpc_file_store E s sender nodeid key v) = Inr True \<longrightarrow>
        (\<exists>b. v = PyBytes b) \<or> (\<exists>t bs. v = PyStr t \<and> text_encode E t = Inr bs))"
proof -
  have bytes: "fst (rpc_file_store E s sender nodeid key (PyBytes b)) = Inr True"
    "fst (rpc_find_file E (snd (rpc_file_store E s sender nodeid key (PyBytes b)))
            sender' nodeid' key) = Inr (Value (PyBytes b))"
    by (simp_all add: rpc_file_store_bytes rpc_find_file_reply)
  have str: "fst (rpc_file_store E s sender nodeid key (PyStr t)) = Inr True"
    "fst (rpc_find_file E (snd (rpc_file_store E s sender nodeid key (PyStr t)))
              sender' nodeid' key) =
            (case text_decode E bs of Inl e \<Rightarrow> Inl e | Inr t' \<Rightarrow> Inr (Value (PyStr t')))"
    if "text_encode E t = Inr bs"
    using that by (simp_all add: rpc_file_store_str rpc_find_file_reply kad_txt_distinct)
  have same: "fst (rpc_find_file E (snd (rpc_file_store E s sender nodeid key (PyStr t)))
              sender' nodeid' key) = Inr (Value (PyStr t))"
    if "text_encode E t = Inr bs" "text_decode E bs = Inr t"
    using that str(2) by simp
  from bytes str same rpc_file_store_returns [of E s sender nodeid key v]
  show ?thesis by blast
qed

theorem blob_round_trip_witness:
  "fst (rpc_find_file table3
          (snd (rpc_file_store table3 holder (''10.0.0.1'', 8468) 3 255 (PyBytes [1, 2, 3])))
          (''10.0.0.2'', 8469) 6 255) = Inr (Value (PyBytes [1, 2, 3]))
   \<and> text_encode table3 ''ab'' = Inr [97, 98]
   \<and> text_decode table3 [97, 98] = Inr ''ab''
   \<and> fst (rpc_file_store table3 holder (''10.0.0.1'', 8468) 3 255 (PyStr ''ab'')) = Inr True
   \<and> fst (rpc_find_file table3
          (snd (rpc_file_store table3 holder (''10.0.0.1'', 8468) 3 255 (PyStr ''ab'')))
          (''10.0.0.2'', 8469) 6 255) = Inr (Value (PyStr ''ab''))"
proof -
  note h = blob_round_trip [of table3 holder "(''10.0.0.1'', 8468)" 3 255 "[1, 2, 3]"
      "(''10.0.0.2'', 8469)" 6 "''ab''" "[97, 98]" PyNone]
  have enc: "text_encode table3 ''ab'' = Inr [97, 98]"
    by (simp add: table3_codec ascii_ab)
  have dec: "text_decode table3 [97, 98] = Inr ''ab''"
    using ascii_read_back [OF ascii_ab] by (simp add: table3_codec)
  show ?thesis
    using h enc dec by blast
qed

section \<open>Refresh targets\<close>










end
